theory Spec2Isabelle
  imports Complex_Main
begin

section \<open>The relational store\<close>

text \<open>
  The expense service and the return-money handler work on a remote relational store
  through a query client. The tables the code touches are modelled as they are keyed:
  \<open>expenses\<close> by id, \<open>profiles\<close> by user id, \<open>user_roles\<close>, \<open>audit_logs\<close> and
  \<open>money_assignments\<close> as row lists. Amounts are JavaScript numbers in the source. The
  model takes an amount as an integer number of hundredths (the amount fields are
  decimal with two places), and writes the balances the code computes as the code's own
  sums and differences of the amounts. Where the outcome depends on how a double
  rounds, in the loop that marks assignments as returned, the model computes on the
  double values (section on returning money).
\<close>

datatype role = Admin | Engineer | Employee | Cashier

datatype status = Submitted | Verified | Approved | Rejected

text \<open>The type of \<open>UpdateExpenseData.status\<close>: \<open>"submitted" | "verified" | "approved"\<close>.\<close>

datatype patch_status = PSubmitted | PVerified | PApproved

fun status_of_patch :: "patch_status \<Rightarrow> status" where
  "status_of_patch PSubmitted = Submitted"
| "status_of_patch PVerified = Verified"
| "status_of_patch PApproved = Approved"

record expense =
  exp_id :: string
  user_id :: string
  title :: string
  destination :: string
  trip_start :: string
  trip_end :: string
  purpose :: "string option"
  category :: string
  total_amount :: int
  status :: status
  admin_comment :: "string option"
  assigned_engineer_id :: "string option"
  updated_at :: string

record profile =
  name :: string
  balance :: "int option"
  reporting_engineer_id :: "string option"

text \<open>
  The comment column of an audit row. \<open>approveExpense\<close> builds its comment from a
  template (the admin's comment, the amount deducted, the remaining balance); the model
  keeps the three parts instead of the formatted text.
\<close>

datatype log_comment = Comment "string option" | BalanceDeducted "string option" int int

record audit_log =
  log_expense_id :: string
  log_user_id :: string
  log_action :: string
  log_comment :: log_comment

record money_assignment =
  ma_id :: string
  cashier_id :: string
  recipient_id :: string
  ma_amount :: int
  assigned_at :: nat
  is_returned :: bool
  returned_at :: "string option"

record store =
  expenses :: "string \<rightharpoonup> expense"
  profiles :: "string \<rightharpoonup> profile"
  user_roles :: "(string \<times> role) list"
  audit_logs :: "audit_log list"
  money_assignments :: "money_assignment list"

text \<open>
  Every call of the query client can come back with an error (network, row-level
  policy). Each call site of the source has a tag, and the environment says which
  calls fail; it also supplies the clock read by \<open>new Date().toISOString()\<close>.
\<close>

datatype store_call =
    RolesSelect
  | CanEditSelect
  | CanReviewSelect
  | ExpenseInsert
  | ExpenseSelect
  | ExpenseUpdate
  | ExpenseRevert
  | ProfileSelect
  | ProfileUpdate
  | AuditInsert
  | TargetRolesSelect
  | TargetProfileSelect
  | CallerBalanceUpdate
  | TargetBalanceUpdate
  | AssignmentsSelect
  | AssignmentUpdate string

record env =
  fails :: "store_call \<Rightarrow> bool"
  now :: string

text \<open>
  The source throws \<open>new Error(message)\<close> everywhere, or rethrows the error object the
  store returned (\<open>StoreError\<close>, with the call that failed). \<open>Error\<close> carries the literal
  message. Two messages are templates and keep their parameters:
  \<open>InsufficientBalance name has needs\<close> is "Insufficient balance. Employee <name> has
  <has> but expense requires <needs>. Please add balance before approving.", and
  \<open>NoTargetFound r\<close> is "No <r> found in the system. Please contact an administrator.".
\<close>

datatype error =
    Error string
  | InsufficientBalance string int int
  | NoTargetFound role
  | StoreError store_call

type_synonym 'a result = "(error + 'a) \<times> store"

subsection \<open>Primitive queries\<close>

text \<open>\<open>.select().eq(key).single()\<close>: an error unless exactly one row matches.\<close>

definition select_expense :: "env \<Rightarrow> store \<Rightarrow> store_call \<Rightarrow> string \<Rightarrow> error + expense" where
  "select_expense e st c expenseId =
     (if fails e c then Inl (StoreError c)
      else case expenses st expenseId of
             None \<Rightarrow> Inl (StoreError c)
           | Some x \<Rightarrow> Inr x)"

definition select_profile :: "env \<Rightarrow> store \<Rightarrow> store_call \<Rightarrow> string \<Rightarrow> error + profile" where
  "select_profile e st c userId =
     (if fails e c then Inl (StoreError c)
      else case profiles st userId of
             None \<Rightarrow> Inl (StoreError c)
           | Some p \<Rightarrow> Inr p)"

text \<open>\<open>.update(payload).eq("id", id).select().single()\<close>: the updated row, or an error
  when the call fails or no row has that id.\<close>

definition update_expense ::
  "env \<Rightarrow> store \<Rightarrow> store_call \<Rightarrow> string \<Rightarrow> (expense \<Rightarrow> expense) \<Rightarrow> expense result" where
  "update_expense e st c expenseId payload =
     (if fails e c then (Inl (StoreError c), st)
      else case expenses st expenseId of
             None \<Rightarrow> (Inl (StoreError c), st)
           | Some x \<Rightarrow> (Inr (payload x), st\<lparr>expenses := (expenses st)(expenseId \<mapsto> payload x)\<rparr>))"

text \<open>\<open>.update({ balance }).eq("user_id", id)\<close> without \<open>.single()\<close>: no error when no
  row matches. The flag returned is "no error".\<close>

definition update_balance :: "env \<Rightarrow> store \<Rightarrow> store_call \<Rightarrow> string \<Rightarrow> int \<Rightarrow> bool \<times> store" where
  "update_balance e st c userId b =
     (if fails e c then (False, st)
      else case profiles st userId of
             None \<Rightarrow> (True, st)
           | Some p \<Rightarrow> (True, st\<lparr>profiles := (profiles st)(userId \<mapsto> p\<lparr>balance := Some b\<rparr>)\<rparr>))"

text \<open>\<open>logAction\<close>: the insert's result is not inspected.\<close>

definition logAction :: "env \<Rightarrow> store \<Rightarrow> string \<Rightarrow> string \<Rightarrow> string \<Rightarrow> log_comment \<Rightarrow> store" where
  "logAction e st expenseId userId action comment =
     (if fails e AuditInsert then st
      else st\<lparr>audit_logs := audit_logs st @
             [\<lparr>log_expense_id = expenseId, log_user_id = userId,
               log_action = action, log_comment = comment\<rparr>]\<rparr>)"

text \<open>\<open>Number(x ?? 0)\<close> and \<open>x || 0\<close> on a nullable numeric column.\<close>

fun number_or_zero :: "int option \<Rightarrow> int" where
  "number_or_zero None = 0"
| "number_or_zero (Some n) = n"

text \<open>A key whose value is \<open>undefined\<close> is dropped from the JSON payload, so the column
  keeps its value.\<close>

fun set_if_defined :: "'a option \<Rightarrow> 'a option \<Rightarrow> 'a option" where
  "set_if_defined None old = old"
| "set_if_defined (Some v) old = Some v"

section \<open>Permission helpers\<close>

text \<open>User ids are ASCII strings; of the white space that \<open>trim\<close> removes, these are
  the ASCII characters.\<close>

definition js_whitespace :: "char \<Rightarrow> bool" where
  "js_whitespace c = (c \<in> set [CHR '' '', CHR 0x09, CHR 0x0A, CHR 0x0B, CHR 0x0C, CHR 0x0D])"

definition trim :: "string \<Rightarrow> string" where
  "trim s = rev (dropWhile js_whitespace (rev (dropWhile js_whitespace s)))"

text \<open>\<open>hasRole\<close>: false for an empty or blank id; \<open>.maybeSingle()\<close> reports an error when
  several rows match, and every error answers false.\<close>

definition hasRole :: "env \<Rightarrow> store \<Rightarrow> string \<Rightarrow> role \<Rightarrow> bool" where
  "hasRole e st userId r =
     (if userId = [] \<or> trim userId = [] then False
      else if fails e RolesSelect then False
      else (case filter (\<lambda>row. fst row = userId \<and> snd row = r) (user_roles st) of
              [] \<Rightarrow> False
            | [row] \<Rightarrow> True
            | _ \<Rightarrow> False))"

definition canUserEditExpense :: "env \<Rightarrow> store \<Rightarrow> string \<Rightarrow> string \<Rightarrow> bool" where
  "canUserEditExpense e st expenseId userId =
     (if hasRole e st userId Admin then True
      else case select_expense e st CanEditSelect expenseId of
             Inl err \<Rightarrow> False
           | Inr x \<Rightarrow> user_id x = userId \<and> status x = Submitted)"

definition canEngineerReviewExpense :: "env \<Rightarrow> store \<Rightarrow> string \<Rightarrow> string \<Rightarrow> bool" where
  "canEngineerReviewExpense e st expenseId engineerId =
     (case select_expense e st CanReviewSelect expenseId of
        Inl err \<Rightarrow> False
      | Inr x \<Rightarrow> assigned_engineer_id x = Some engineerId)"

section \<open>The expense service\<close>

record create_data =
  new_title :: string
  new_destination :: string
  new_trip_start :: string
  new_trip_end :: string
  new_purpose :: "string option"
  new_amount :: int
  new_category :: string

text \<open>
  \<open>createExpense\<close>. The store generates the id of the new row; the model receives it as
  \<open>newId\<close>, and the insert fails when that id is taken. \<open>CreateExpenseData\<close> has no status
  field, so \<open>data.status || "submitted"\<close> is \<open>"submitted"\<close>. The error message is
  "Failed to create expense: " followed by the store's message; the model keeps the
  fixed part.
\<close>

definition createExpense :: "env \<Rightarrow> store \<Rightarrow> string \<Rightarrow> string \<Rightarrow> create_data \<Rightarrow> expense result" where
  "createExpense e st newId userId d =
     (if fails e ExpenseInsert \<or> expenses st newId \<noteq> None
      then (Inl (Error ''Failed to create expense''), st)
      else
        let x = \<lparr>exp_id = newId, user_id = userId, title = new_title d,
                 destination = new_destination d, trip_start = new_trip_start d,
                 trip_end = new_trip_end d, purpose = new_purpose d,
                 category = new_category d, total_amount = new_amount d,
                 status = Submitted, admin_comment = None, assigned_engineer_id = None,
                 updated_at = now e\<rparr>;
            st1 = st\<lparr>expenses := (expenses st)(newId \<mapsto> x)\<rparr>
        in (Inr x, logAction e st1 newId userId ''expense_created'' (Comment (Some ''Expense created''))))"

record update_data =
  upd_title :: "string option"
  upd_destination :: "string option"
  upd_trip_start :: "string option"
  upd_trip_end :: "string option"
  upd_purpose :: "string option"
  upd_status :: "patch_status option"
  upd_admin_comment :: "string option"
  upd_assigned_engineer_id :: "string option"
  upd_amount :: "int option"
  upd_category :: "string option"

fun or_else :: "'a option \<Rightarrow> 'a \<Rightarrow> 'a" where
  "or_else None old = old"
| "or_else (Some v) old = v"

text \<open>The payload \<open>{ ...data, total_amount, updated_at }\<close> applied to a row.\<close>

definition apply_update :: "env \<Rightarrow> update_data \<Rightarrow> expense \<Rightarrow> expense" where
  "apply_update e d x =
     x\<lparr>title := or_else (upd_title d) (title x),
       destination := or_else (upd_destination d) (destination x),
       trip_start := or_else (upd_trip_start d) (trip_start x),
       trip_end := or_else (upd_trip_end d) (trip_end x),
       purpose := set_if_defined (upd_purpose d) (purpose x),
       status := or_else (map_option status_of_patch (upd_status d)) (status x),
       admin_comment := set_if_defined (upd_admin_comment d) (admin_comment x),
       assigned_engineer_id := set_if_defined (upd_assigned_engineer_id d) (assigned_engineer_id x),
       category := or_else (upd_category d) (category x),
       total_amount := or_else (upd_amount d) (total_amount x),
       updated_at := now e\<rparr>"

text \<open>The audit action of an update: \<open>status_changed_to_<status>\<close> when the patch
  carries a status, \<open>expense_updated\<close> otherwise.\<close>

fun update_action :: "update_data \<Rightarrow> string" where
  "update_action d =
     (case upd_status d of
        None \<Rightarrow> ''expense_updated''
      | Some PSubmitted \<Rightarrow> ''status_changed_to_submitted''
      | Some PVerified \<Rightarrow> ''status_changed_to_verified''
      | Some PApproved \<Rightarrow> ''status_changed_to_approved'')"

definition updateExpense :: "env \<Rightarrow> store \<Rightarrow> string \<Rightarrow> string \<Rightarrow> update_data \<Rightarrow> expense result" where
  "updateExpense e st expenseId userId d =
     (if \<not> canUserEditExpense e st expenseId userId
      then (Inl (Error ''You don't have permission to edit this expense''), st)
      else case select_expense e st ExpenseSelect expenseId of
        Inl err \<Rightarrow> (Inl err, st)
      | Inr currentExpense \<Rightarrow>
          if status currentExpense \<noteq> Submitted \<and> upd_status d = None
          then (Inl (Error ''Only submitted expenses can be edited. Verified or approved expenses cannot be modified.''), st)
          else (case update_expense e st ExpenseUpdate expenseId (apply_update e d) of
            (Inl err, st1) \<Rightarrow> (Inl err, st1)
          | (Inr updatedExpense, st1) \<Rightarrow>
              (Inr updatedExpense,
               logAction e st1 expenseId userId (update_action d)
                 (Comment (upd_admin_comment d)))))"

text \<open>\<open>!profile?.reporting_engineer_id\<close>: null and the empty string are both falsy.\<close>

fun falsy :: "string option \<Rightarrow> bool" where
  "falsy None = True"
| "falsy (Some s) = (s = [])"

definition submitExpense :: "env \<Rightarrow> store \<Rightarrow> string \<Rightarrow> string \<Rightarrow> expense result" where
  "submitExpense e st expenseId userId =
     (if \<not> canUserEditExpense e st expenseId userId
      then (Inl (Error ''You don't have permission to submit this expense''), st)
      else case select_expense e st ExpenseSelect expenseId of
        Inl err \<Rightarrow> (Inl err, st)
      | Inr x \<Rightarrow>
          if status x \<noteq> Submitted
          then (Inl (Error ''Only submitted expenses can be re-submitted''), st)
          else (case select_profile e st ProfileSelect userId of
            Inl err \<Rightarrow> (Inl err, st)
          | Inr p \<Rightarrow>
              if falsy (reporting_engineer_id p)
              then (Inl (Error ''No reporting engineer is assigned to your profile. Please contact admin to set your reporting engineer before submitting the expense.''), st)
              else (case update_expense e st ExpenseUpdate expenseId
                          (\<lambda>y. y\<lparr>status := Submitted,
                                 assigned_engineer_id := reporting_engineer_id p,
                                 updated_at := now e\<rparr>) of
                (Inl err, st1) \<Rightarrow> (Inl err, st1)
              | (Inr updatedExpense, st1) \<Rightarrow>
                  (Inr updatedExpense,
                   logAction e st1 expenseId userId ''expense_submitted''
                     (Comment (Some (''Expense submitted and auto-assigned to engineer '' @
                                     or_else (reporting_engineer_id p) [])))))))"

definition assignToEngineer :: "env \<Rightarrow> store \<Rightarrow> string \<Rightarrow> string \<Rightarrow> string \<Rightarrow> expense result" where
  "assignToEngineer e st expenseId engineerId adminId =
     (if \<not> hasRole e st adminId Admin
      then (Inl (Error ''Only administrators can assign expenses to engineers''), st)
      else if \<not> hasRole e st engineerId Engineer
      then (Inl (Error ''Assigned user must have engineer role''), st)
      else case update_expense e st ExpenseUpdate expenseId
                  (\<lambda>y. y\<lparr>assigned_engineer_id := Some engineerId,
                         status := Submitted,
                         updated_at := now e\<rparr>) of
        (Inl err, st1) \<Rightarrow> (Inl err, st1)
      | (Inr updatedExpense, st1) \<Rightarrow>
          (Inr updatedExpense,
           logAction e st1 expenseId adminId ''expense_assigned''
             (Comment (Some (''Assigned to engineer '' @ engineerId)))))"

definition verifyExpense :: "env \<Rightarrow> store \<Rightarrow> string \<Rightarrow> string \<Rightarrow> string option \<Rightarrow> expense result" where
  "verifyExpense e st expenseId engineerId comment =
     (if \<not> canEngineerReviewExpense e st expenseId engineerId
      then (Inl (Error ''You don't have permission to review this expense''), st)
      else case select_expense e st ExpenseSelect expenseId of
        Inl err \<Rightarrow> (Inl err, st)
      | Inr current \<Rightarrow>
          if status current = Approved
          then (Inl (Error ''This expense is already approved and cannot be updated''), st)
          else if status current \<noteq> Submitted
          then (Inl (Error ''Only submitted expenses can be verified''), st)
          else (case update_expense e st ExpenseUpdate expenseId
                      (\<lambda>y. y\<lparr>status := Verified, updated_at := now e\<rparr>) of
            (Inl err, st1) \<Rightarrow> (Inl err, st1)
          | (Inr updatedExpense, st1) \<Rightarrow>
              (Inr updatedExpense,
               logAction e st1 expenseId engineerId ''expense_verified'' (Comment comment))))"

text \<open>The compensating write of \<open>approveExpense\<close>: its result is not inspected.\<close>

definition revert_status :: "env \<Rightarrow> store \<Rightarrow> string \<Rightarrow> store" where
  "revert_status e st expenseId =
     (if fails e ExpenseRevert then st
      else case expenses st expenseId of
             None \<Rightarrow> st
           | Some x \<Rightarrow> st\<lparr>expenses := (expenses st)(expenseId \<mapsto>
                            x\<lparr>status := Verified, updated_at := now e\<rparr>)\<rparr>)"

definition approveExpense :: "env \<Rightarrow> store \<Rightarrow> string \<Rightarrow> string \<Rightarrow> string option \<Rightarrow> expense result" where
  "approveExpense e st expenseId adminId comment =
     (if \<not> hasRole e st adminId Admin
      then (Inl (Error ''Only administrators can approve expenses''), st)
      else case select_expense e st ExpenseSelect expenseId of
        Inl err \<Rightarrow> (Inl err, st)
      | Inr x \<Rightarrow>
          if status x = Approved
          then (Inl (Error ''This expense is already approved''), st)
          else if status x \<noteq> Verified
          then (Inl (Error ''Expense must be verified by an engineer before admin approval''), st)
          else (case select_profile e st ProfileSelect (user_id x) of
            Inl err \<Rightarrow> (Inl err, st)
          | Inr p \<Rightarrow>
              let currentBalance = number_or_zero (balance p);
                  expenseAmount = total_amount x
              in
              if currentBalance < expenseAmount
              then (Inl (InsufficientBalance (name p) currentBalance expenseAmount), st)
              else (case update_expense e st ExpenseUpdate expenseId
                          (\<lambda>y. y\<lparr>status := Approved,
                                 admin_comment := set_if_defined comment (admin_comment y),
                                 updated_at := now e\<rparr>) of
                (Inl err, st1) \<Rightarrow> (Inl err, st1)
              | (Inr updatedExpense, st1) \<Rightarrow>
                  let newBalance = currentBalance - expenseAmount;
                      written = update_balance e st1 ProfileUpdate (user_id x) newBalance
                  in
                  if \<not> fst written
                  then (Inl (Error ''Failed to deduct balance. Expense approval reverted.''),
                        revert_status e (snd written) expenseId)
                  else (Inr updatedExpense,
                        logAction e (snd written) expenseId adminId ''expense_approved''
                          (BalanceDeducted comment expenseAmount newBalance)))))"

definition rejectExpense :: "env \<Rightarrow> store \<Rightarrow> string \<Rightarrow> string \<Rightarrow> string option \<Rightarrow> expense result" where
  "rejectExpense e st expenseId adminId comment =
     (if \<not> hasRole e st adminId Admin
      then (Inl (Error ''Only administrators can reject expenses''), st)
      else case update_expense e st ExpenseUpdate expenseId
                  (\<lambda>y. y\<lparr>status := Rejected,
                         admin_comment := set_if_defined comment (admin_comment y),
                         updated_at := now e\<rparr>) of
        (Inl err, st1) \<Rightarrow> (Inl err, st1)
      | (Inr updatedExpense, st1) \<Rightarrow>
          (Inr updatedExpense,
           logAction e st1 expenseId adminId ''expense_rejected'' (Comment comment)))"

section \<open>Returning money\<close>

text \<open>
  \<open>handleReturnMoney\<close> is a handler of the expenses page. It reads the page's state:
  the signed-in user, the user's role, and \<open>userBalance\<close>, the balance the page fetched
  when it loaded (or set after the last return). The amount is what \<open>parseFloat\<close> made
  of the text field, \<open>None\<close> for \<open>NaN\<close>.
\<close>

record page =
  user :: "string option"
  userRole :: "role option"
  userBalance :: "int option"

datatype outcome =
    NoAction
  | InvalidAmount
  | InsufficientBalanceToast
  | ErrorToast error
  | MoneyReturned

text \<open>\<open>.from("user_roles").select("user_id").eq("role", r).limit(1)\<close>, then
  \<open>targetRoles[0].user_id\<close>: the first row of the role, in the order of the table.\<close>

definition any_user_with_role :: "env \<Rightarrow> store \<Rightarrow> role \<Rightarrow> error + string" where
  "any_user_with_role e st r =
     (if fails e TargetRolesSelect then Inl (StoreError TargetRolesSelect)
      else case filter (\<lambda>row. snd row = r) (user_roles st) of
             [] \<Rightarrow> Inl (NoTargetFound r)
           | row # rest \<Rightarrow> Inr (fst row))"

text \<open>
  The choice of the target. The stored procedure \<open>get_original_cashier\<close> is not part of
  the sources; its answer is the parameter \<open>originalCashierId\<close> (\<open>None\<close> when the call
  failed or answered null).
\<close>

definition return_target :: "env \<Rightarrow> store \<Rightarrow> string option \<Rightarrow> role \<Rightarrow> error + string" where
  "return_target e st originalCashierId r =
     (case (if r = Engineer \<or> r = Employee
            then (if \<not> falsy originalCashierId
                  then Inr originalCashierId
                  else map_sum id Some (any_user_with_role e st Cashier))
            else if r = Cashier
            then map_sum id Some (any_user_with_role e st Admin)
            else Inr None)
      of Inl err \<Rightarrow> Inl err
       | Inr targetUserId \<Rightarrow>
           if falsy targetUserId
           then Inl (Error ''Invalid role for returning money or target user not found'')
           else Inr (or_else targetUserId []))"

text \<open>Marking one assignment row as returned; a failure is logged and ignored.\<close>

definition returned_row :: "env \<Rightarrow> money_assignment \<Rightarrow> money_assignment" where
  "returned_row e a = a\<lparr>is_returned := True, returned_at := Some (now e)\<rparr>"

definition mark_row :: "env \<Rightarrow> string \<Rightarrow> money_assignment list \<Rightarrow> money_assignment list" where
  "mark_row e rowId tbl =
     (if fails e (AssignmentUpdate rowId) then tbl
      else map (\<lambda>a. if ma_id a = rowId then returned_row e a else a) tbl)"

subsection \<open>The numbers of the loop\<close>

text \<open>
  A finite double is a rational \<open>n * 2 ^ ex\<close> with \<open>n\<close> of at most 53 bits.
  \<open>to_nearest_double x\<close> is the double nearest to \<open>x\<close>, ties to the even \<open>n\<close>, as
  IEEE 754 rounds: \<open>normalise\<close> scales \<open>\<bar>x\<bar>\<close> by powers of two into
  \<open>[2 ^ 52, 2 ^ 53)\<close>, and the scaled value is rounded to an integer. The 2200 steps
  given to \<open>normalise\<close> reach every double in the normal range; subnormal numbers and
  overflow, far from any amount of money, are not modelled.
\<close>

fun normalise :: "nat \<Rightarrow> rat \<Rightarrow> int \<Rightarrow> rat \<times> int" where
  "normalise 0 m ex = (m, ex)"
| "normalise (Suc fuel) m ex =
     (if 9007199254740992 \<le> m then normalise fuel (m / 2) (ex + 1)
      else if m < 4503599627370496 then normalise fuel (m * 2) (ex - 1)
      else (m, ex))"

definition round_half_even :: "rat \<Rightarrow> int" where
  "round_half_even m =
     (let f = \<lfloor>m\<rfloor>; d = m - of_int f
      in if d < 1 / 2 then f
         else if 1 / 2 < d then f + 1
         else if even f then f else f + 1)"

definition pow2 :: "int \<Rightarrow> rat" where
  "pow2 ex = (if 0 \<le> ex then 2 ^ nat ex else 1 / 2 ^ nat (- ex))"

definition to_nearest_double :: "rat \<Rightarrow> rat" where
  "to_nearest_double x =
     (if x = 0 then 0
      else case normalise 2200 \<bar>x\<bar> 0 of
             (m, ex) \<Rightarrow> sgn x * of_int (round_half_even m) * pow2 ex)"

text \<open>The double that \<open>parseFloat\<close> and \<open>Number\<close> read from the decimal text of an
  amount of \<open>p\<close> hundredths.\<close>

definition to_double :: "int \<Rightarrow> rat" where
  "to_double p = to_nearest_double (of_int p / 100)"

text \<open>
  The loop over the selected assignments, oldest first. \<open>remainingAmount\<close> is a double:
  \<open>Math.min\<close> and the comparison with 0 are exact, the subtraction rounds.
\<close>

fun mark_assignments ::
  "env \<Rightarrow> rat \<Rightarrow> money_assignment list \<Rightarrow> money_assignment list \<Rightarrow> money_assignment list" where
  "mark_assignments e remainingAmount [] tbl = tbl"
| "mark_assignments e remainingAmount (a # rest) tbl =
     (if remainingAmount \<le> 0 then tbl
      else
        let assignmentAmount = min (to_double (ma_amount a)) remainingAmount
        in mark_assignments e (to_nearest_double (remainingAmount - assignmentAmount)) rest
             (mark_row e (ma_id a) tbl))"

subsection \<open>The handler\<close>

text \<open>The unreturned assignments of a recipient from a cashier, by ascending
  \<open>assigned_at\<close> (a point in time, as a number). The store does not say how it orders
  rows of equal \<open>assigned_at\<close>; the model keeps them in table order.\<close>

definition unreturned_assignments :: "store \<Rightarrow> string \<Rightarrow> string \<Rightarrow> money_assignment list" where
  "unreturned_assignments st recipientId cashierId =
     sort_key assigned_at
       (filter (\<lambda>a. recipient_id a = recipientId \<and> cashier_id a = cashierId \<and> \<not> is_returned a)
          (money_assignments st))"

definition settle_assignments :: "env \<Rightarrow> store \<Rightarrow> string \<Rightarrow> string \<Rightarrow> int \<Rightarrow> store" where
  "settle_assignments e st userId targetUserId amount =
     (if fails e AssignmentsSelect then st
      else st\<lparr>money_assignments :=
                mark_assignments e (to_double amount)
                  (unreturned_assignments st userId targetUserId) (money_assignments st)\<rparr>)"

definition handleReturnMoney ::
  "env \<Rightarrow> string option \<Rightarrow> page \<Rightarrow> int option \<Rightarrow> store \<Rightarrow> outcome \<times> page \<times> store" where
  "handleReturnMoney e originalCashierId pg parsed st =
     (case (user pg, userRole pg, userBalance pg) of
        (Some userId, Some r, Some bal) \<Rightarrow>
          (case parsed of
             None \<Rightarrow> (InvalidAmount, pg, st)
           | Some amount \<Rightarrow>
               if amount \<le> 0 then (InvalidAmount, pg, st)
               else if amount > bal then (InsufficientBalanceToast, pg, st)
               else (case return_target e st originalCashierId r of
                  Inl err \<Rightarrow> (ErrorToast err, pg, st)
                | Inr targetUserId \<Rightarrow>
                    (case select_profile e st TargetProfileSelect targetUserId of
                       Inl err \<Rightarrow> (ErrorToast err, pg, st)
                     | Inr targetProfile \<Rightarrow>
                         let newUserBalance = bal - amount;
                             w1 = update_balance e st CallerBalanceUpdate userId newUserBalance
                         in
                         if \<not> fst w1 then (ErrorToast (StoreError CallerBalanceUpdate), pg, snd w1)
                         else
                           let newTargetBalance = number_or_zero (balance targetProfile) + amount;
                               w2 = update_balance e (snd w1) TargetBalanceUpdate targetUserId
                                      newTargetBalance
                           in
                           if \<not> fst w2 then (ErrorToast (StoreError TargetBalanceUpdate), pg, snd w2)
                           else
                             (MoneyReturned, pg\<lparr>userBalance := Some newUserBalance\<rparr>,
                              if r = Engineer \<or> r = Employee
                              then settle_assignments e (snd w2) userId targetUserId amount
                              else snd w2))))
      | _ \<Rightarrow> (NoAction, pg, st))"

section \<open>Operations on the expense table, as one type\<close>

datatype op =
    Create string string create_data
  | Update string string update_data
  | Submit string string
  | AssignToEngineer string string string
  | Verify string string "string option"
  | Approve string string "string option"
  | Reject string string "string option"

fun run_op :: "env \<Rightarrow> store \<Rightarrow> op \<Rightarrow> expense result" where
  "run_op e st (Create newId userId d) = createExpense e st newId userId d"
| "run_op e st (Update expenseId userId d) = updateExpense e st expenseId userId d"
| "run_op e st (Submit expenseId userId) = submitExpense e st expenseId userId"
| "run_op e st (AssignToEngineer expenseId engineerId adminId) =
     assignToEngineer e st expenseId engineerId adminId"
| "run_op e st (Verify expenseId engineerId comment) = verifyExpense e st expenseId engineerId comment"
| "run_op e st (Approve expenseId adminId comment) = approveExpense e st expenseId adminId comment"
| "run_op e st (Reject expenseId adminId comment) = rejectExpense e st expenseId adminId comment"

text \<open>A sequence of operations, each with the environment it meets (which calls fail,
  what the clock says): each one runs on the store its predecessor left, whether it
  succeeded or threw.\<close>

fun run_ops :: "store \<Rightarrow> (env \<times> op) list \<Rightarrow> store" where
  "run_ops st [] = st"
| "run_ops st (x # xs) = run_ops (snd (run_op (fst x) st (snd x))) xs"

section \<open>Notions used to state the properties\<close>

text \<open>The status transitions the specification lists: submitted to verified, verified
  to approved, submitted or verified to rejected, and submitted to submitted.\<close>

definition spec_transition :: "status \<Rightarrow> status \<Rightarrow> bool" where
  "spec_transition s s' =
     ((s, s') \<in> set [(Submitted, Verified), (Verified, Approved), (Submitted, Rejected),
                     (Verified, Rejected), (Submitted, Submitted)])"

text \<open>
  The change of status each operation can make on the expense \<open>k\<close>, read off the
  operations: \<open>op_transition e st opn k s s'\<close> says that \<open>opn\<close>, run on the store \<open>st\<close>,
  may take the status of \<open>k\<close> from \<open>s\<close> to \<open>s'\<close>. \<open>owner_covers st k\<close>: the owner of
  \<open>k\<close> has a profile whose balance is at least the expense's amount.
\<close>

definition owner_covers :: "store \<Rightarrow> string \<Rightarrow> bool" where
  "owner_covers st k =
     (case expenses st k of
        None \<Rightarrow> False
      | Some x \<Rightarrow>
          (case profiles st (user_id x) of
             None \<Rightarrow> False
           | Some p \<Rightarrow> total_amount x \<le> number_or_zero (balance p)))"

fun op_transition :: "env \<Rightarrow> store \<Rightarrow> op \<Rightarrow> string \<Rightarrow> status \<Rightarrow> status \<Rightarrow> bool" where
  "op_transition e st (Create newId userId d) k s s' = False"
| "op_transition e st (Update expenseId userId d) k s s' =
     (expenseId = k \<and> map_option status_of_patch (upd_status d) = Some s'
      \<and> (hasRole e st userId Admin
         \<or> (s = Submitted \<and> map_option user_id (expenses st k) = Some userId)))"
| "op_transition e st (Submit expenseId userId) k s s' = False"
| "op_transition e st (AssignToEngineer expenseId engineerId adminId) k s s' =
     (expenseId = k \<and> s' = Submitted \<and> hasRole e st adminId Admin
      \<and> hasRole e st engineerId Engineer)"
| "op_transition e st (Verify expenseId engineerId comment) k s s' =
     (expenseId = k \<and> s = Submitted \<and> s' = Verified
      \<and> map_option assigned_engineer_id (expenses st k) = Some (Some engineerId))"
| "op_transition e st (Approve expenseId adminId comment) k s s' =
     (expenseId = k \<and> s = Verified \<and> s' = Approved \<and> hasRole e st adminId Admin
      \<and> owner_covers st k)"
| "op_transition e st (Reject expenseId adminId comment) k s s' =
     (expenseId = k \<and> s' = Rejected \<and> hasRole e st adminId Admin)"

section \<open>A small office, for concrete runs\<close>

definition ok_env :: env where
  "ok_env = \<lparr>fails = (\<lambda>c. False), now = ''2024-05-01T10:00:00.000Z''\<rparr>"



definition credit_down :: env where
  "credit_down = \<lparr>fails = (\<lambda>c. c = TargetBalanceUpdate), now = ''2024-05-01T10:00:00.000Z''\<rparr>"

definition trip :: "status \<Rightarrow> expense" where
  "trip s = \<lparr>exp_id = ''e1'', user_id = ''emp1'', title = ''Site visit'',
             destination = ''Pune'', trip_start = ''2024-04-01'', trip_end = ''2024-04-03'',
             purpose = None, category = ''travel'', total_amount = 1500,
             status = s, admin_comment = None, assigned_engineer_id = Some ''eng1'',
             updated_at = ''2024-04-04T09:00:00.000Z''\<rparr>"

definition taxi :: expense where
  "taxi = \<lparr>exp_id = ''e2'', user_id = ''emp1'', title = ''Airport taxi'',
           destination = ''Mumbai'', trip_start = ''2024-04-10'', trip_end = ''2024-04-10'',
           purpose = None, category = ''travel'', total_amount = 800,
           status = Submitted, admin_comment = None, assigned_engineer_id = None,
           updated_at = ''2024-04-11T09:00:00.000Z''\<rparr>"

definition hotel :: expense where
  "hotel = \<lparr>exp_id = ''e3'', user_id = ''emp2'', title = ''Hotel'',
            destination = ''Delhi'', trip_start = ''2024-04-12'', trip_end = ''2024-04-14'',
            purpose = Some ''audit'', category = ''lodging'', total_amount = 4200,
            status = Submitted, admin_comment = None, assigned_engineer_id = None,
            updated_at = ''2024-04-15T09:00:00.000Z''\<rparr>"

text \<open>
  \<open>office b s\<close>: an admin, an engineer, a cashier, the employee \<open>emp1\<close> with balance
  \<open>b\<close> who reports to the engineer and owns the trip expense in status \<open>s\<close>, and
  \<open>emp2\<close>, who has a profile without a reporting engineer and no role row. The cashier
  funded \<open>emp1\<close> three times: 300, then 500, then 400.
\<close>

definition office :: "int \<Rightarrow> status \<Rightarrow> store" where
  "office b s =
     \<lparr>expenses = [''e1'' \<mapsto> trip s, ''e2'' \<mapsto> taxi, ''e3'' \<mapsto> hotel],
      profiles = [''emp1'' \<mapsto> \<lparr>name = ''Asha'', balance = Some b,
                                reporting_engineer_id = Some ''eng1''\<rparr>,
                  ''emp2'' \<mapsto> \<lparr>name = ''Kiran'', balance = Some 100,
                                reporting_engineer_id = None\<rparr>,
                  ''cash1'' \<mapsto> \<lparr>name = ''Ravi'', balance = Some 2000,
                                 reporting_engineer_id = None\<rparr>],
      user_roles = [(''adm1'', Admin), (''eng1'', Engineer), (''emp1'', Employee),
                    (''cash1'', Cashier)],
      audit_logs = [],
      money_assignments =
        [\<lparr>ma_id = ''m3'', cashier_id = ''cash1'', recipient_id = ''emp1'', ma_amount = 400,
          assigned_at = 30, is_returned = False, returned_at = None\<rparr>,
         \<lparr>ma_id = ''m1'', cashier_id = ''cash1'', recipient_id = ''emp1'', ma_amount = 300,
          assigned_at = 10, is_returned = False, returned_at = None\<rparr>,
         \<lparr>ma_id = ''m2'', cashier_id = ''cash1'', recipient_id = ''emp1'', ma_amount = 500,
          assigned_at = 20, is_returned = False, returned_at = None\<rparr>]\<rparr>"

text \<open>The office after an assignment was recorded with \<open>emp1\<close> as its own cashier.\<close>

definition own_till :: store where
  "own_till =
     (office 1000 Verified)
       \<lparr>money_assignments :=
          [\<lparr>ma_id = ''m0'', cashier_id = ''emp1'', recipient_id = ''emp1'', ma_amount = 700,
            assigned_at = 5, is_returned = False, returned_at = None\<rparr>]\<rparr>"

text \<open>The office with three assignments of 100.10, 200.20 and 50.00 (in hundredths),
  oldest first.\<close>

definition paise_till :: store where
  "paise_till =
     (office 100000 Verified)
       \<lparr>money_assignments :=
          [\<lparr>ma_id = ''p1'', cashier_id = ''cash1'', recipient_id = ''emp1'', ma_amount = 10010,
            assigned_at = 10, is_returned = False, returned_at = None\<rparr>,
           \<lparr>ma_id = ''p2'', cashier_id = ''cash1'', recipient_id = ''emp1'', ma_amount = 20020,
            assigned_at = 20, is_returned = False, returned_at = None\<rparr>,
           \<lparr>ma_id = ''p3'', cashier_id = ''cash1'', recipient_id = ''emp1'', ma_amount = 5000,
            assigned_at = 30, is_returned = False, returned_at = None\<rparr>]\<rparr>"

definition employee_page :: "int \<Rightarrow> page" where
  "employee_page b = \<lparr>user = Some ''emp1'', userRole = Some Employee, userBalance = Some b\<rparr>"

definition approve_patch :: update_data where
  "approve_patch = \<lparr>upd_title = None, upd_destination = None, upd_trip_start = None,
                    upd_trip_end = None, upd_purpose = None, upd_status = Some PApproved,
                    upd_admin_comment = None, upd_assigned_engineer_id = None,
                    upd_amount = None, upd_category = None\<rparr>"

section \<open>Facts about the office\<close>

lemma office_admin: "hasRole ok_env (office b s) ''adm1'' Admin"
  by (simp add: hasRole_def ok_env_def office_def trim_def js_whitespace_def)



lemma office_trip: "expenses (office b s) ''e1'' = Some (trip s)"
  by (simp add: office_def)

lemma office_taxi: "expenses (office b s) ''e2'' = Some taxi"
  by (simp add: office_def)

lemma office_hotel: "expenses (office b s) ''e3'' = Some hotel"
  by (simp add: office_def)

lemma office_owner:
  "profiles (office b s) (user_id (trip s')) =
     Some \<lparr>name = ''Asha'', balance = Some b, reporting_engineer_id = Some ''eng1''\<rparr>"
  by (simp add: office_def trip_def)

lemma office_emp1:
  "profiles (office b s) ''emp1'' =
     Some \<lparr>name = ''Asha'', balance = Some b, reporting_engineer_id = Some ''eng1''\<rparr>"
  by (simp add: office_def)

lemma office_emp2:
  "profiles (office b s) ''emp2'' =
     Some \<lparr>name = ''Kiran'', balance = Some 100, reporting_engineer_id = None\<rparr>"
  by (simp add: office_def)

lemma office_cash1:
  "profiles (office b s) ''cash1'' =
     Some \<lparr>name = ''Ravi'', balance = Some 2000, reporting_engineer_id = None\<rparr>"
  by (simp add: office_def)

lemma office_emp2_no_role: "\<not> hasRole ok_env (office b s) ''emp2'' r"
  by (simp add: hasRole_def office_def)

lemma office_emp1_not_admin: "\<not> hasRole ok_env (office b s) ''emp1'' Admin"
  by (simp add: hasRole_def office_def)

section \<open>Approval\<close>

text \<open>
  Claim C1. Whenever \<open>approveExpense\<close> succeeds, the caller holds the admin role, the
  expense was verified, the owner's balance afterwards is the balance before (a null
  balance counts as 0) minus the expense's \<open>total_amount\<close>, and the expense's status
  afterwards is approved.
\<close>

theorem approveExpense_success:
  assumes "fst (approveExpense e st expenseId adminId comment) = Inr x'"
      and "expenses st expenseId = Some x"
      and "profiles st (user_id x) = Some p"
  shows "hasRole e st adminId Admin \<and> status x = Verified
       \<and> (\<exists>p'. profiles (snd (approveExpense e st expenseId adminId comment)) (user_id x) = Some p'
               \<and> balance p' = Some (number_or_zero (balance p) - total_amount x))
       \<and> (\<exists>y. expenses (snd (approveExpense e st expenseId adminId comment)) expenseId = Some y
               \<and> status y = Approved)"
  using assms
  by (auto simp: approveExpense_def select_expense_def select_profile_def update_expense_def
        update_balance_def logAction_def Let_def split: if_splits)

text \<open>The scenario of the specification: an expense of 1500, an owner with 5000.\<close>

theorem approveExpense_success_witness:
  "fst (approveExpense ok_env (office 5000 Verified) ''e1'' ''adm1'' (Some ''ok'')) =
      Inr ((trip Approved)\<lparr>admin_comment := Some ''ok'', updated_at := now ok_env\<rparr>)
   \<and> (\<exists>p'. profiles (snd (approveExpense ok_env (office 5000 Verified) ''e1'' ''adm1'' (Some ''ok'')))
              ''emp1'' = Some p' \<and> balance p' = Some 3500)
   \<and> (\<exists>y. expenses (snd (approveExpense ok_env (office 5000 Verified) ''e1'' ''adm1'' (Some ''ok'')))
              ''e1'' = Some y \<and> status y = Approved)"
proof -
  have run: "fst (approveExpense ok_env (office 5000 Verified) ''e1'' ''adm1'' (Some ''ok'')) =
      Inr ((trip Approved)\<lparr>admin_comment := Some ''ok'', updated_at := now ok_env\<rparr>)"
    by (simp add: approveExpense_def office_admin select_expense_def select_profile_def
        office_trip office_owner update_expense_def update_balance_def Let_def)
       (simp add: trip_def ok_env_def)
  from approveExpense_success [OF run office_trip office_owner]
  show ?thesis
    using run by (simp add: trip_def)
qed

text \<open>
  Claim C2. When the owner's balance is strictly below the expense's \<open>total_amount\<close>,
  \<open>approveExpense\<close> fails and leaves the whole store, so the status and the balance, as
  they were; and when nothing fails earlier (the caller is an admin, the expense is
  verified, the two reads succeed) the error is the insufficient-balance one.
\<close>

theorem approveExpense_insufficient:
  assumes "expenses st expenseId = Some x"
      and "profiles st (user_id x) = Some p"
      and "number_or_zero (balance p) < total_amount x"
  shows "(\<exists>err. approveExpense e st expenseId adminId comment = (Inl err, st))
       \<and> (hasRole e st adminId Admin \<and> status x = Verified
            \<and> \<not> fails e ExpenseSelect \<and> \<not> fails e ProfileSelect \<longrightarrow>
          approveExpense e st expenseId adminId comment =
            (Inl (InsufficientBalance (name p) (number_or_zero (balance p)) (total_amount x)), st))"
  using assms
  by (auto simp: approveExpense_def select_expense_def select_profile_def Let_def)

text \<open>The scenario of the specification: the same expense, an owner with 1000.\<close>

theorem approveExpense_insufficient_witness:
  "approveExpense ok_env (office 1000 Verified) ''e1'' ''adm1'' (Some ''ok'') =
     (Inl (InsufficientBalance ''Asha'' 1000 1500), office 1000 Verified)"
proof -
  have lt: "number_or_zero (balance \<lparr>name = ''Asha'', balance = Some 1000,
                                     reporting_engineer_id = Some ''eng1''\<rparr>)
             < total_amount (trip Verified)"
    by (simp add: trip_def)
  from approveExpense_insufficient [OF office_trip office_owner lt, of ok_env "''adm1''" "Some ''ok''"]
  show ?thesis
    using office_admin [of 1000 Verified] by (simp add: trip_def ok_env_def)
qed




section \<open>Verification and submission\<close>

text \<open>
  Claim C8. \<open>verifyExpense\<close> on an existing expense: when the acting engineer is not the
  assigned engineer it fails with the permission error; when the engineer matches and
  the status is not submitted it fails with a state error ("already approved" for an
  approved expense, "only submitted expenses can be verified" otherwise); and when the
  engineer matches and the status is submitted it sets the status to verified.
\<close>

theorem verifyExpense_contract:
  assumes "expenses st expenseId = Some x"
  shows "(assigned_engineer_id x \<noteq> Some engineerId \<longrightarrow>
            verifyExpense e st expenseId engineerId comment =
              (Inl (Error ''You don't have permission to review this expense''), st))
       \<and> (assigned_engineer_id x = Some engineerId \<and> status x \<noteq> Submitted
            \<and> \<not> fails e CanReviewSelect \<and> \<not> fails e ExpenseSelect \<longrightarrow>
            verifyExpense e st expenseId engineerId comment =
              (Inl (Error (if status x = Approved
                           then ''This expense is already approved and cannot be updated''
                           else ''Only submitted expenses can be verified'')), st))
       \<and> (assigned_engineer_id x = Some engineerId \<and> status x = Submitted
            \<and> \<not> fails e CanReviewSelect \<and> \<not> fails e ExpenseSelect \<and> \<not> fails e ExpenseUpdate \<longrightarrow>
            fst (verifyExpense e st expenseId engineerId comment) =
              Inr (x\<lparr>status := Verified, updated_at := now e\<rparr>)
            \<and> expenses (snd (verifyExpense e st expenseId engineerId comment)) expenseId =
              Some (x\<lparr>status := Verified, updated_at := now e\<rparr>))"
  using assms
  by (simp add: verifyExpense_def canEngineerReviewExpense_def select_expense_def
        update_expense_def logAction_def)

theorem verifyExpense_contract_witness:
  "verifyExpense ok_env (office 5000 Submitted) ''e1'' ''eng2'' (Some ''ok'') =
     (Inl (Error ''You don't have permission to review this expense''), office 5000 Submitted)
   \<and> verifyExpense ok_env (office 5000 Approved) ''e1'' ''eng1'' (Some ''ok'') =
     (Inl (Error ''This expense is already approved and cannot be updated''), office 5000 Approved)
   \<and> verifyExpense ok_env (office 5000 Rejected) ''e1'' ''eng1'' (Some ''ok'') =
     (Inl (Error ''Only submitted expenses can be verified''), office 5000 Rejected)
   \<and> map_option status
       (expenses (snd (verifyExpense ok_env (office 5000 Submitted) ''e1'' ''eng1'' (Some ''ok''))) ''e1'')
       = Some Verified"
  using verifyExpense_contract [OF office_trip [of 5000 Submitted], where engineerId = "''eng2''"
          and e = ok_env and comment = "Some ''ok''"]
        verifyExpense_contract [OF office_trip [of 5000 Approved], where engineerId = "''eng1''"
          and e = ok_env and comment = "Some ''ok''"]
        verifyExpense_contract [OF office_trip [of 5000 Rejected], where engineerId = "''eng1''"
          and e = ok_env and comment = "Some ''ok''"]
        verifyExpense_contract [OF office_trip [of 5000 Submitted], where engineerId = "''eng1''"
          and e = ok_env and comment = "Some ''ok''"]
  by (simp add: trip_def ok_env_def)

text \<open>
  Claim C9. \<open>submitExpense\<close> on a submitted expense, by a user allowed to edit it who
  has a profile: when the profile has no reporting engineer (null, or the empty string)
  it fails with the "No reporting engineer" error and changes nothing; otherwise the
  expense's \<open>assigned_engineer_id\<close> becomes that engineer and the status stays submitted.
\<close>

theorem submitExpense_contract:
  assumes "expenses st expenseId = Some x"
      and "status x = Submitted"
      and "canUserEditExpense e st expenseId userId"
      and "profiles st userId = Some p"
      and "\<not> fails e ExpenseSelect" and "\<not> fails e ProfileSelect" and "\<not> fails e ExpenseUpdate"
  shows "(falsy (reporting_engineer_id p) \<longrightarrow>
            submitExpense e st expenseId userId =
              (Inl (Error ''No reporting engineer is assigned to your profile. Please contact admin to set your reporting engineer before submitting the expense.''), st))
       \<and> (\<not> falsy (reporting_engineer_id p) \<longrightarrow>
            fst (submitExpense e st expenseId userId) =
              Inr (x\<lparr>status := Submitted, assigned_engineer_id := reporting_engineer_id p,
                     updated_at := now e\<rparr>)
            \<and> expenses (snd (submitExpense e st expenseId userId)) expenseId =
              Some (x\<lparr>status := Submitted, assigned_engineer_id := reporting_engineer_id p,
                       updated_at := now e\<rparr>))"
  using assms
  by (simp add: submitExpense_def select_expense_def select_profile_def
        update_expense_def logAction_def)

theorem submitExpense_contract_witness:
  "submitExpense ok_env (office 5000 Verified) ''e3'' ''emp2'' =
     (Inl (Error ''No reporting engineer is assigned to your profile. Please contact admin to set your reporting engineer before submitting the expense.''),
      office 5000 Verified)
   \<and> assigned_engineer_id taxi = None
   \<and> expenses (snd (submitExpense ok_env (office 5000 Verified) ''e2'' ''emp1'')) ''e2'' =
       Some (taxi\<lparr>status := Submitted, assigned_engineer_id := Some ''eng1'',
                  updated_at := now ok_env\<rparr>)"
proof -
  have ok: "\<not> fails ok_env ExpenseSelect" "\<not> fails ok_env ProfileSelect"
    "\<not> fails ok_env ExpenseUpdate"
    by (simp_all add: ok_env_def)
  have s3: "status hotel = Submitted" and s2: "status taxi = Submitted"
    by (simp_all add: hotel_def taxi_def)
  have c3: "canUserEditExpense ok_env (office 5000 Verified) ''e3'' ''emp2''"
    by (simp add: canUserEditExpense_def office_emp2_no_role select_expense_def office_hotel)
       (simp add: ok_env_def hotel_def)
  have c2: "canUserEditExpense ok_env (office 5000 Verified) ''e2'' ''emp1''"
    by (simp add: canUserEditExpense_def office_emp1_not_admin select_expense_def office_taxi)
       (simp add: ok_env_def taxi_def)
  from submitExpense_contract [OF office_hotel s3 c3 office_emp2 ok]
       submitExpense_contract [OF office_taxi s2 c2 office_emp1 ok]
  show ?thesis by (simp add: taxi_def)
qed

section \<open>Updates and the status machine\<close>

text \<open>
  Claim C4. A caller who owns a submitted expense and does not hold the admin role can
  update it with a patch that carries a status: the permission check passes, the
  update succeeds, the status becomes the patched one (approved, verified or
  submitted) with no check of any role, and no profile, so no balance, changes.
\<close>

theorem updateExpense_owner_sets_status:
  assumes "expenses st expenseId = Some x"
      and "user_id x = userId"
      and "status x = Submitted"
      and "\<not> hasRole e st userId Admin"
      and "upd_status d = Some s"
      and "\<not> fails e CanEditSelect" and "\<not> fails e ExpenseSelect" and "\<not> fails e ExpenseUpdate"
  shows "canUserEditExpense e st expenseId userId
       \<and> fst (updateExpense e st expenseId userId d) = Inr (apply_update e d x)
       \<and> status (apply_update e d x) = status_of_patch s
       \<and> expenses (snd (updateExpense e st expenseId userId d)) expenseId = Some (apply_update e d x)
       \<and> profiles (snd (updateExpense e st expenseId userId d)) = profiles st"
  using assms
  by (simp add: updateExpense_def canUserEditExpense_def select_expense_def
        update_expense_def logAction_def apply_update_def)

text \<open>The owner \<open>emp2\<close> of the hotel expense has no role at all and approves it.\<close>

theorem updateExpense_owner_sets_status_witness:
  "(\<forall>r. \<not> hasRole ok_env (office 5000 Verified) ''emp2'' r)
   \<and> user_id hotel = ''emp2'' \<and> status hotel = Submitted
   \<and> map_option status
       (expenses (snd (updateExpense ok_env (office 5000 Verified) ''e3'' ''emp2'' approve_patch)) ''e3'')
       = Some Approved
   \<and> profiles (snd (updateExpense ok_env (office 5000 Verified) ''e3'' ''emp2'' approve_patch))
       = profiles (office 5000 Verified)"
proof -
  have ok: "\<not> fails ok_env CanEditSelect" "\<not> fails ok_env ExpenseSelect"
    "\<not> fails ok_env ExpenseUpdate"
    by (simp_all add: ok_env_def)
  have own: "user_id hotel = ''emp2''" and sub: "status hotel = Submitted"
    by (simp_all add: hotel_def)
  have patch: "upd_status approve_patch = Some PApproved"
    by (simp add: approve_patch_def)
  from updateExpense_owner_sets_status [OF office_hotel own sub office_emp2_no_role patch ok]
  show ?thesis
    using own sub by (simp add: office_emp2_no_role)
qed

text \<open>Each operation, on the status of an expense that exists.\<close>

lemma expenses_logAction [simp]: "expenses (logAction e st i u a c) = expenses st"
  by (simp add: logAction_def)

lemma create_status:
  assumes "expenses st k = Some x"
  shows "expenses (snd (createExpense e st newId userId d)) k = Some x"
  using assms by (auto simp: createExpense_def Let_def)

lemma update_status:
  assumes "expenses st k = Some x"
  shows "\<exists>y. expenses (snd (updateExpense e st i u d)) k = Some y
           \<and> (status y = status x \<or> op_transition e st (Update i u d) k (status x) (status y))"
  using assms
  by (cases "upd_status d")
     (auto simp: updateExpense_def canUserEditExpense_def select_expense_def update_expense_def
        apply_update_def split: if_splits option.splits)

lemma submit_status:
  assumes "expenses st k = Some x"
  shows "\<exists>y. expenses (snd (submitExpense e st i u)) k = Some y \<and> status y = status x"
  using assms
  by (auto simp: submitExpense_def select_expense_def select_profile_def update_expense_def
        split: if_splits option.splits)

lemma assign_status:
  assumes "expenses st k = Some x"
  shows "\<exists>y. expenses (snd (assignToEngineer e st i g a)) k = Some y
           \<and> (status y = status x
              \<or> op_transition e st (AssignToEngineer i g a) k (status x) (status y))"
  using assms
  by (auto simp: assignToEngineer_def update_expense_def split: if_splits option.splits)

lemma verify_status:
  assumes "expenses st k = Some x"
  shows "\<exists>y. expenses (snd (verifyExpense e st i g c)) k = Some y
           \<and> (status y = status x \<or> op_transition e st (Verify i g c) k (status x) (status y))"
  using assms
  by (auto simp: verifyExpense_def canEngineerReviewExpense_def select_expense_def
        update_expense_def split: if_splits option.splits)

lemma approve_status:
  assumes "expenses st k = Some x"
  shows "\<exists>y. expenses (snd (approveExpense e st i a c)) k = Some y
           \<and> (status y = status x \<or> op_transition e st (Approve i a c) k (status x) (status y))"
  using assms
  by (auto simp: approveExpense_def select_expense_def select_profile_def update_expense_def
        update_balance_def revert_status_def owner_covers_def Let_def
        split: if_splits option.splits)

lemma reject_status:
  assumes "expenses st k = Some x"
  shows "\<exists>y. expenses (snd (rejectExpense e st i a c)) k = Some y
           \<and> (status y = status x \<or> op_transition e st (Reject i a c) k (status x) (status y))"
  using assms
  by (auto simp: rejectExpense_def update_expense_def split: if_splits option.splits)

lemma run_op_status:
  assumes "expenses st k = Some x"
  shows "\<exists>y. expenses (snd (run_op e st opn)) k = Some y
           \<and> (status y = status x \<or> op_transition e st opn k (status x) (status y))"
proof (cases opn)
  case (Create newId userId d)
  then show ?thesis using create_status [OF assms] by simp
next
  case (Update i u d)
  then show ?thesis using update_status [OF assms] by simp
next
  case (Submit i u)
  then show ?thesis using submit_status [OF assms] by simp
next
  case (AssignToEngineer i g a)
  then show ?thesis using assign_status [OF assms] by simp
next
  case (Verify i g c)
  then show ?thesis using verify_status [OF assms] by simp
next
  case (Approve i a c)
  then show ?thesis using approve_status [OF assms] by simp
next
  case (Reject i a c)
  then show ?thesis using reject_status [OF assms] by simp
qed

lemma run_ops_keeps_expense:
  "expenses st k = Some x \<Longrightarrow> \<exists>y. expenses (run_ops st ops) k = Some y"
proof (induction ops arbitrary: st x)
  case Nil
  then show ?case by simp
next
  case (Cons opn ops)
  from run_op_status [OF Cons.prems, of "fst opn" "snd opn"]
  obtain y where "expenses (snd (run_op (fst opn) st (snd opn))) k = Some y" by blast
  from Cons.IH [OF this] show ?case by simp
qed

lemma run_ops_append: "run_ops st (xs @ ys) = run_ops (run_ops st xs) ys"
  by (induction xs arbitrary: st) simp_all

text \<open>
  Claim C3, as the code has it. Along every sequence of operations, whatever store
  calls fail on the way, at every step an expense that exists keeps existing, and its
  status either stays or changes as the operation of that step allows: Verify, by the
  assigned engineer, only from submitted to verified; Approve, by an admin and when the
  owner's balance covers the amount, only from verified to approved, so Approve never
  takes submitted to approved; Reject, by an admin, to rejected from any status;
  AssignToEngineer, by an admin to a holder of the engineer role, to submitted from any
  status; Update with a status field to the patched status (submitted, verified or
  approved), from submitted for the owner of the expense and from any status for an
  admin. Create, Submit and Update without a status field never change the status of an
  existing expense, and no operation changes the status of an expense other than its
  own.
\<close>

theorem status_changes_along_sequence:
  assumes "expenses st k = Some x"
      and "i < length ops"
  shows "\<exists>y z. expenses (run_ops st (take i ops)) k = Some y
             \<and> expenses (run_ops st (take (Suc i) ops)) k = Some z
             \<and> (status z = status y
                \<or> op_transition (fst (ops ! i)) (run_ops st (take i ops)) (snd (ops ! i)) k
                     (status y) (status z))"
proof -
  from run_ops_keeps_expense [OF assms(1)]
  obtain y where y: "expenses (run_ops st (take i ops)) k = Some y" by blast
  have step: "run_ops st (take (Suc i) ops) =
                snd (run_op (fst (ops ! i)) (run_ops st (take i ops)) (snd (ops ! i)))"
    using assms(2) by (simp add: take_Suc_conv_app_nth run_ops_append)
  from run_op_status [OF y, of "fst (ops ! i)" "snd (ops ! i)"] y step
  show ?thesis by auto
qed

text \<open>The spec scenario up to approval, followed by a rejection and a reassignment:
  the third step is the approval, from verified.\<close>

theorem status_changes_along_sequence_witness:
  "map_option status
     (expenses (run_ops (office 5000 Submitted)
        (take 2 [(ok_env, Submit ''e1'' ''emp1''), (ok_env, Verify ''e1'' ''eng1'' (Some ''ok'')),
                 (ok_env, Approve ''e1'' ''adm1'' None), (ok_env, Reject ''e1'' ''adm1'' None)]))
        ''e1'') = Some Verified
   \<and> map_option status
     (expenses (run_ops (office 5000 Submitted)
        (take 3 [(ok_env, Submit ''e1'' ''emp1''), (ok_env, Verify ''e1'' ''eng1'' (Some ''ok'')),
                 (ok_env, Approve ''e1'' ''adm1'' None), (ok_env, Reject ''e1'' ''adm1'' None)]))
        ''e1'') = Some Approved"
proof -
  let ?ops = "[(ok_env, Submit ''e1'' ''emp1''), (ok_env, Verify ''e1'' ''eng1'' (Some ''ok'')),
               (ok_env, Approve ''e1'' ''adm1'' None), (ok_env, Reject ''e1'' ''adm1'' None)]"
  have len: "2 < length ?ops" by simp
  from status_changes_along_sequence [OF office_trip len, of 5000 Submitted]
  obtain y z where y: "expenses (run_ops (office 5000 Submitted) (take 2 ?ops)) ''e1'' = Some y"
    and z: "expenses (run_ops (office 5000 Submitted) (take (Suc 2) ?ops)) ''e1'' = Some z"
    and yz: "status z = status y
             \<or> op_transition (fst (?ops ! 2)) (run_ops (office 5000 Submitted) (take 2 ?ops))
                  (snd (?ops ! 2)) ''e1'' (status y) (status z)"
    by blast
  have after: "map_option status (expenses (run_ops (office 5000 Submitted) (take (Suc 2) ?ops)) ''e1'')
          = Some Approved"
    by (simp add: submitExpense_def verifyExpense_def approveExpense_def canUserEditExpense_def
          canEngineerReviewExpense_def hasRole_def trim_def js_whitespace_def select_expense_def
          select_profile_def update_expense_def update_balance_def logAction_def Let_def
          office_def ok_env_def trip_def)
  with z have za: "status z = Approved" by simp
  from yz za have "status y = Approved \<or> status y = Verified" by auto
  moreover have "map_option status (expenses (run_ops (office 5000 Submitted) (take 2 ?ops)) ''e1'')
          = Some Verified"
    by (simp add: submitExpense_def verifyExpense_def canUserEditExpense_def
          canEngineerReviewExpense_def hasRole_def trim_def js_whitespace_def select_expense_def
          select_profile_def update_expense_def logAction_def Let_def
          office_def ok_env_def trip_def)
  ultimately show ?thesis
    using after by (simp add: eval_nat_numeral)
qed

text \<open>
  The claim as the specification states it fails: an admin rejects an approved
  expense, an admin's assignment takes a rejected expense back to submitted, and an
  update with a status field takes a submitted expense straight to approved. None of
  the three is among the transitions the specification lists.
\<close>

theorem status_machine_counterexample:
  "map_option status (expenses (office 5000 Approved) ''e1'') = Some Approved
   \<and> map_option status
       (expenses (run_ops (office 5000 Approved) [(ok_env, Reject ''e1'' ''adm1'' (Some ''late''))])
          ''e1'')
       = Some Rejected
   \<and> \<not> spec_transition Approved Rejected
   \<and> map_option status
       (expenses (run_ops (office 5000 Approved)
          [(ok_env, Reject ''e1'' ''adm1'' (Some ''late'')),
           (ok_env, AssignToEngineer ''e1'' ''eng1'' ''adm1'')]) ''e1'')
       = Some Submitted
   \<and> \<not> spec_transition Rejected Submitted
   \<and> map_option status (expenses (office 5000 Submitted) ''e1'') = Some Submitted
   \<and> map_option status
       (expenses (run_ops (office 5000 Submitted) [(ok_env, Update ''e1'' ''adm1'' approve_patch)])
          ''e1'')
       = Some Approved
   \<and> \<not> spec_transition Submitted Approved"
  by (simp add: rejectExpense_def assignToEngineer_def updateExpense_def canUserEditExpense_def
        hasRole_def trim_def js_whitespace_def select_expense_def update_expense_def
        logAction_def apply_update_def approve_patch_def spec_transition_def
        office_def ok_env_def trip_def)

section \<open>Properties of returning money\<close>

text \<open>
  Claim C5, as the code has it. The handler checks the amount against \<open>userBalance\<close>,
  the balance held by the page, and writes \<open>userBalance - amount\<close> to the caller's
  profile. So an amount that is not a number, not strictly positive, or above the
  page's balance is refused with the page and the store unchanged. A return that
  succeeds has \<open>0 < amount \<le> userBalance\<close>; the target's balance ends at its balance
  before (null counts as 0) plus exactly \<open>amount\<close>; and when the target is another
  user, the caller's stored balance ends at the page's balance minus \<open>amount\<close>, which
  is a decrease by exactly \<open>amount\<close> when the page's balance is the stored one.
\<close>

theorem handleReturnMoney_balances:
  assumes "user pg = Some userId" and "userRole pg = Some r" and "userBalance pg = Some bal"
  shows "((case parsed of None \<Rightarrow> True | Some a \<Rightarrow> a \<le> 0 \<or> bal < a) \<longrightarrow>
            fst (handleReturnMoney e originalCashierId pg parsed st)
              \<in> {InvalidAmount, InsufficientBalanceToast}
          \<and> snd (handleReturnMoney e originalCashierId pg parsed st) = (pg, st))
       \<and> (parsed = Some amount
          \<and> fst (handleReturnMoney e originalCashierId pg parsed st) = MoneyReturned
          \<and> return_target e st originalCashierId r = Inr targetUserId
          \<and> profiles st targetUserId = Some q \<longrightarrow>
            0 < amount \<and> amount \<le> bal
          \<and> map_option balance
               (profiles (snd (snd (handleReturnMoney e originalCashierId pg parsed st))) targetUserId)
              = Some (Some (number_or_zero (balance q) + amount))
          \<and> (targetUserId \<noteq> userId \<and> profiles st userId = Some p \<longrightarrow>
               map_option balance
                 (profiles (snd (snd (handleReturnMoney e originalCashierId pg parsed st))) userId)
                = Some (Some (bal - amount))))"
  using assms
  by (auto simp: handleReturnMoney_def select_profile_def update_balance_def settle_assignments_def
        Let_def split: if_splits option.splits sum.splits)

lemma office_target: "return_target e (office b s) (Some ''cash1'') Employee = Inr ''cash1''"
  by (simp add: return_target_def)

lemma office_return_ok:
  "0 < a \<Longrightarrow> a \<le> c \<Longrightarrow>
   fst (handleReturnMoney ok_env (Some ''cash1'') (employee_page c) (Some a) (office b s)) = MoneyReturned"
  by (simp add: handleReturnMoney_def employee_page_def office_target select_profile_def
        office_cash1 update_balance_def office_emp1 Let_def)
     (simp add: ok_env_def office_def)

text \<open>The page and the store agree on 1000: a return of 400 moves 400 from the employee
  to the cashier, and a return of 1200 is refused.\<close>

theorem handleReturnMoney_balances_witness:
  "map_option balance (profiles (office 1000 Verified) ''emp1'') = Some (Some 1000)
   \<and> map_option balance (profiles (office 1000 Verified) ''cash1'') = Some (Some 2000)
   \<and> fst (handleReturnMoney ok_env (Some ''cash1'') (employee_page 1000) (Some 400) (office 1000 Verified))
       = MoneyReturned
   \<and> map_option balance
       (profiles (snd (snd (handleReturnMoney ok_env (Some ''cash1'') (employee_page 1000) (Some 400)
                              (office 1000 Verified)))) ''emp1'') = Some (Some 600)
   \<and> map_option balance
       (profiles (snd (snd (handleReturnMoney ok_env (Some ''cash1'') (employee_page 1000) (Some 400)
                              (office 1000 Verified)))) ''cash1'') = Some (Some 2400)
   \<and> fst (handleReturnMoney ok_env (Some ''cash1'') (employee_page 1000) (Some 1200) (office 1000 Verified))
       = InsufficientBalanceToast
   \<and> snd (handleReturnMoney ok_env (Some ''cash1'') (employee_page 1000) (Some 1200)
            (office 1000 Verified)) = (employee_page 1000, office 1000 Verified)"
proof -
  have pg: "user (employee_page 1000) = Some ''emp1''" "userRole (employee_page 1000) = Some Employee"
    "userBalance (employee_page 1000) = Some 1000"
    by (simp_all add: employee_page_def)
  have run: "fst (handleReturnMoney ok_env (Some ''cash1'') (employee_page 1000) (Some 400)
                    (office 1000 Verified)) = MoneyReturned"
    by (rule office_return_ok) simp_all
  have big: "fst (handleReturnMoney ok_env (Some ''cash1'') (employee_page 1000) (Some 1200)
                    (office 1000 Verified)) \<noteq> InvalidAmount"
    by (simp add: handleReturnMoney_def employee_page_def)
  from handleReturnMoney_balances [OF pg, where parsed = "Some 400" and amount = 400
         and e = ok_env and originalCashierId = "Some ''cash1''" and targetUserId = "''cash1''"
         and st = "office 1000 Verified"
         and q = "\<lparr>name = ''Ravi'', balance = Some 2000, reporting_engineer_id = None\<rparr>"
         and p = "\<lparr>name = ''Asha'', balance = Some 1000, reporting_engineer_id = Some ''eng1''\<rparr>"]
       handleReturnMoney_balances [OF pg, where parsed = "Some 1200"
         and e = ok_env and originalCashierId = "Some ''cash1''" and st = "office 1000 Verified"]
  show ?thesis
    using run big by (simp add: office_target office_cash1 office_emp1)
qed

text \<open>
  The claim as the specification states it fails in two ways. First, with a stale
  page: the page loaded when the employee had 1000, and the stored balance is 500 by
  now. A return of 800, above the stored balance, succeeds; the stored balance goes from
  500 to 200, a decrease of 300, and the cashier receives 800. Second, when the target
  is the caller: an assignment names \<open>emp1\<close> as its own cashier, the stored procedure
  answers \<open>emp1\<close>, and a return of 400 with page and store agreeing on 1000 succeeds
  and leaves the caller with 1400.
\<close>

theorem handleReturnMoney_stale_counterexample:
  "map_option balance (profiles (office 500 Verified) ''emp1'') = Some (Some 500)
   \<and> map_option balance (profiles (office 500 Verified) ''cash1'') = Some (Some 2000)
   \<and> fst (handleReturnMoney ok_env (Some ''cash1'') (employee_page 1000) (Some 800) (office 500 Verified))
       = MoneyReturned
   \<and> map_option balance
       (profiles (snd (snd (handleReturnMoney ok_env (Some ''cash1'') (employee_page 1000) (Some 800)
                              (office 500 Verified)))) ''emp1'') = Some (Some 200)
   \<and> map_option balance
       (profiles (snd (snd (handleReturnMoney ok_env (Some ''cash1'') (employee_page 1000) (Some 800)
                              (office 500 Verified)))) ''cash1'') = Some (Some 2800)
   \<and> map_option balance (profiles own_till ''emp1'') = Some (Some 1000)
   \<and> fst (handleReturnMoney ok_env (Some ''emp1'') (employee_page 1000) (Some 400) own_till)
       = MoneyReturned
   \<and> map_option balance
       (profiles (snd (snd (handleReturnMoney ok_env (Some ''emp1'') (employee_page 1000) (Some 400)
                              own_till))) ''emp1'') = Some (Some 1400)"
  by (simp add: handleReturnMoney_def employee_page_def return_target_def select_profile_def
        office_cash1 update_balance_def office_emp1 settle_assignments_def own_till_def Let_def)
     (simp add: ok_env_def office_def)

text \<open>
  Claim C7 at a failing input. The employee returns 300; the write that takes 300 from
  the employee succeeds and the write that credits the cashier fails. The handler shows
  the error and writes nothing more: the employee's stored balance stays at 700 and the
  cashier's at 2000. No write restores the 1000.
\<close>

theorem handleReturnMoney_no_compensation:
  "fst (handleReturnMoney credit_down (Some ''cash1'') (employee_page 1000) (Some 300) (office 1000 Verified))
       = ErrorToast (StoreError TargetBalanceUpdate)
   \<and> map_option balance (profiles (office 1000 Verified) ''emp1'') = Some (Some 1000)
   \<and> map_option balance
       (profiles (snd (snd (handleReturnMoney credit_down (Some ''cash1'') (employee_page 1000) (Some 300)
                              (office 1000 Verified)))) ''emp1'') = Some (Some 700)
   \<and> map_option balance
       (profiles (snd (snd (handleReturnMoney credit_down (Some ''cash1'') (employee_page 1000) (Some 300)
                              (office 1000 Verified)))) ''cash1'') = Some (Some 2000)"
  by (simp add: handleReturnMoney_def employee_page_def office_target select_profile_def
        office_cash1 update_balance_def office_emp1 Let_def)
     (simp add: credit_down_def office_def)

text \<open>Evaluating the double arithmetic on numerals.\<close>

lemma normalise_numeral:
  "normalise (numeral k) m ex =
     (if 9007199254740992 \<le> m then normalise (pred_numeral k) (m / 2) (ex + 1)
      else if m < 4503599627370496 then normalise (pred_numeral k) (m * 2) (ex - 1)
      else (m, ex))"
  by (simp add: numeral_eq_Suc)

lemma floor_rat_numeral: "\<lfloor>numeral a / numeral b :: rat\<rfloor> = numeral a div numeral b"
  by (metis floor_divide_of_int_eq of_int_numeral)

lemmas double_eval = to_double_def to_nearest_double_def normalise_numeral round_half_even_def
  pow2_def Let_def floor_rat_numeral

text \<open>The doubles of 300.30, 100.10 and 200.20, and what is left of 300.30 after
  100.10 and then 200.20 are taken from it: \<open>2 ^ -45\<close>, not 0.\<close>

lemma paise_doubles:
  "to_double 30030 = 5282933469138125 / 17592186044416"
  "to_double 10010 = 3521955646092083 / 35184372088832"
  "to_double 20020 = 3521955646092083 / 17592186044416"
  "to_double 5000 = 50"
  by (simp_all add: double_eval del: normalise.simps)

lemma paise_remainders:
  "to_nearest_double (to_double 30030 - to_double 10010) = 7043911292184167 / 35184372088832"
  "to_nearest_double (7043911292184167 / 35184372088832 - to_double 20020) = 1 / 35184372088832"
  by (simp_all add: double_eval del: normalise.simps)

text \<open>
  Claim C10 at a failing input. The employee's unreturned assignments from the cashier
  are 100.10, 200.20 and 50.00, oldest first, and the employee returns 300.30. The
  first two rows amount to exactly 300.30, but in double arithmetic
  \<open>300.30 - 100.10 - 200.20\<close> is \<open>2 ^ -45\<close>, so \<open>remainingAmount <= 0\<close> is false after
  the second row and the loop marks the row of 50.00 as returned as well.
\<close>

theorem handleReturnMoney_marks_one_too_many:
  "fst (handleReturnMoney ok_env (Some ''cash1'') (employee_page 100000) (Some 30030) paise_till)
       = MoneyReturned
   \<and> map (\<lambda>a. (ma_id a, ma_amount a, is_returned a)) (money_assignments paise_till) =
       [(''p1'', 10010, False), (''p2'', 20020, False), (''p3'', 5000, False)]
   \<and> (10010 :: int) + 20020 = 30030
   \<and> map (\<lambda>a. (ma_id a, ma_amount a, is_returned a))
       (money_assignments
          (snd (snd (handleReturnMoney ok_env (Some ''cash1'') (employee_page 100000) (Some 30030)
                       paise_till)))) =
       [(''p1'', 10010, True), (''p2'', 20020, True), (''p3'', 5000, True)]"
  by (simp add: handleReturnMoney_def employee_page_def return_target_def select_profile_def
        update_balance_def settle_assignments_def unreturned_assignments_def mark_row_def
        returned_row_def paise_till_def ok_env_def office_def paise_doubles double_eval
      del: normalise.simps)

end
